theory Spec2Isabelle
  imports Main "HOL-Library.Word" "HOL-Library.Sublist"
begin

section \<open>Values shared by the backend\<close>

text \<open>
  The backend is two Python modules: \<^verbatim>\<open>core.py\<close> (extraction of the application text,
  construction of the retriever and of the chain) and \<^verbatim>\<open>main.py\<close> (the HTTP handlers
  and the start-up hook). Python strings are modelled as \<^typ>\<open>string\<close>, the uploaded
  bytes as a list of 8-bit words.
\<close>

type_synonym byte = "8 word"

type_synonym bytes = "byte list"

text \<open>
  An instance of Python's \<^verbatim>\<open>Exception\<close> with its message: what PyPDF2, the loader,
  the vector store and the model client raise. A computation that may raise returns
  \<open>exn + 'a\<close>, with \<open>Inl\<close> for the raised exception.
\<close>

datatype exn = Exception string

section \<open>core.py: text of an uploaded application\<close>

text \<open>
  \<^verbatim>\<open>PdfReader(io.BytesIO(pdf_bytes))\<close> either raises or gives a reader whose
  \<^verbatim>\<open>pages\<close> are visited in document order; \<^verbatim>\<open>page.extract_text()\<close> either raises
  or returns the text of that page. PyPDF2 is not part of the repository, so the reader
  is a parameter of the model: a function from the bytes to the pages, each page being
  the outcome of its \<^verbatim>\<open>extract_text()\<close>.
\<close>

type_synonym page = "exn + string"

type_synonym pdf_reader = "bytes \<Rightarrow> exn + page list"

text \<open>
  The loop \<^verbatim>\<open>for page in reader.pages: application_text += page.extract_text()\<close>,
  with the text accumulated so far as first argument. A page that raises ends the loop.
\<close>

fun extract_pages :: "string \<Rightarrow> page list \<Rightarrow> exn + string" where
  "extract_pages application_text [] = Inr application_text"
| "extract_pages application_text (page # pages) =
     (case page of
        Inl e \<Rightarrow> Inl e
      | Inr t \<Rightarrow> extract_pages (application_text @ t) pages)"

definition unreadable_message :: string where
  "unreadable_message = ''Error: Could not read text from PDF.''"

text \<open>The body of the \<^verbatim>\<open>try\<close> block of \<^verbatim>\<open>load_application_text_from_bytes\<close>.\<close>

definition load_application_text_try :: "pdf_reader \<Rightarrow> bytes \<Rightarrow> exn + string" where
  "load_application_text_try reader pdf_bytes =
     (case reader pdf_bytes of
        Inl e \<Rightarrow> Inl e
      | Inr pages \<Rightarrow>
          (case extract_pages [] pages of
             Inl e \<Rightarrow> Inl e
           | Inr application_text \<Rightarrow>
               if application_text = [] then Inr unreadable_message
               else Inr application_text))"

text \<open>
  The whole function: \<^verbatim>\<open>except Exception\<close> turns every exception of the body into
  the fixed message. The result type still allows an exception, so that "nothing is
  propagated" is a statement about the function and not about its type.
\<close>

definition load_application_text_from_bytes :: "pdf_reader \<Rightarrow> bytes \<Rightarrow> exn + string" where
  "load_application_text_from_bytes reader pdf_bytes =
     (case load_application_text_try reader pdf_bytes of
        Inl e \<Rightarrow> Inr unreadable_message
      | Inr application_text \<Rightarrow> Inr application_text)"

section \<open>core.py: the prompt template and its filling\<close>

text \<open>
  The triple-quoted \<^verbatim>\<open>system_prompt\<close> of \<^verbatim>\<open>create_rag_chain\<close>, one source line per
  line: it starts with the line break after the opening quotes, every line carries the
  four spaces of the function body's indentation, and it ends with the indentation of
  the closing quotes.
\<close>

definition system_prompt :: string where
  \<open>system_prompt =
     ''\<newline>'' @
     ''    You are an expert underwriting assistant. Your task is to analyze a\<newline>'' @
     ''    loan application based *only* on the provided 'Underwriting Guidelines'.\<newline>'' @
     ''    \<newline>'' @
     ''    Do not use any external knowledge.\<newline>'' @
     ''    \<newline>'' @
     ''    Analyze the following 'Loan Application' against the 'Underwriting Guidelines'.\<newline>'' @
     ''    \<newline>'' @
     ''    Guidelines:\<newline>'' @
     ''    {context}\<newline>'' @
     ''    \<newline>'' @
     ''    Loan Application:\<newline>'' @
     ''    {input}\<newline>'' @
     ''    \<newline>'' @
     ''    Please provide your analysis in the following format:\<newline>'' @
     ''    \<newline>'' @
     ''    **Summary:**\<newline>'' @
     ''    [Provide a brief summary of the loan application.]\<newline>'' @
     ''    \<newline>'' @
     ''    **Flagged Risks:**\<newline>'' @
     ''    [List all violations or risks found in the application based on the guidelines. \<newline>'' @
     ''    For each risk, state the guideline that was violated and why. \<newline>'' @
     ''    If no risks are found, state "No risks flagged." ]\<newline>'' @
     ''    ''\<close>

text \<open>
  The template is filled by Python's \<^verbatim>\<open>str.format\<close> rules (the f-string format of
  \<^verbatim>\<open>ChatPromptTemplate\<close>): text is copied, \<^verbatim>\<open>{{\<close> and \<^verbatim>\<open>}}\<close> are the two braces,
  \<^verbatim>\<open>{name}\<close> is replaced by the value of \<^verbatim>\<open>name\<close>, and the inserted value is not
  scanned again. The second argument is the field name read so far (\<open>None\<close> outside a
  field). A brace that is not closed, a lone \<^verbatim>\<open>}\<close> and an unknown name raise.
  Conversions and format specifications inside a field are not modelled: the template
  has none.
\<close>

fun str_format :: "(string \<rightharpoonup> string) \<Rightarrow> string option \<Rightarrow> string \<Rightarrow> exn + string" where
  "str_format kwargs None [] = Inr []"
| "str_format kwargs (Some name) [] =
     Inl (Exception ''expected } before end of string'')"
| "str_format kwargs None (c # cs) =
     (if c = CHR ''{'' then
        (case cs of
           [] \<Rightarrow> Inl (Exception ''Single { encountered in format string'')
         | d # ds \<Rightarrow>
             if d = CHR ''{'' then
               (case str_format kwargs None ds of
                  Inl e \<Rightarrow> Inl e
                | Inr out \<Rightarrow> Inr (CHR ''{'' # out))
             else str_format kwargs (Some []) cs)
      else if c = CHR ''}'' then
        (case cs of
           [] \<Rightarrow> Inl (Exception ''Single } encountered in format string'')
         | d # ds \<Rightarrow>
             if d = CHR ''}'' then
               (case str_format kwargs None ds of
                  Inl e \<Rightarrow> Inl e
                | Inr out \<Rightarrow> Inr (CHR ''}'' # out))
             else Inl (Exception ''Single } encountered in format string''))
      else
        (case str_format kwargs None cs of
           Inl e \<Rightarrow> Inl e
         | Inr out \<Rightarrow> Inr (c # out)))"
| "str_format kwargs (Some name) (c # cs) =
     (if c = CHR ''}'' then
        (case kwargs name of
           None \<Rightarrow> Inl (Exception name)
         | Some v \<Rightarrow>
             (case str_format kwargs None cs of
                Inl e \<Rightarrow> Inl e
              | Inr out \<Rightarrow> Inr (v @ out)))
      else str_format kwargs (Some (name @ [c])) cs)"

text \<open>\<^verbatim>\<open>sep.join(docs)\<close>.\<close>

fun join :: "string \<Rightarrow> string list \<Rightarrow> string" where
  "join sep [] = []"
| "join sep [x] = x"
| "join sep (x # y # ys) = x @ sep @ join sep (y # ys)"

text \<open>
  What the documents chain built by \<^verbatim>\<open>create_stuff_documents_chain(llm, prompt)\<close> sends to
  the model: the template with \<^verbatim>\<open>context\<close> bound to the retrieved chunks joined by the
  library's document separator, and \<^verbatim>\<open>input\<close> bound to the application text. The
  separator belongs to the library, so it is a parameter.
\<close>

definition compose_prompt :: "string \<Rightarrow> string \<Rightarrow> string list \<Rightarrow> string \<Rightarrow> exn + string" where
  "compose_prompt template sep context_chunks application_text =
     str_format [''context'' \<mapsto> join sep context_chunks, ''input'' \<mapsto> application_text]
       None template"

section \<open>core.py: the retriever and the chain\<close>

text \<open>
  The libraries the backend calls are parameters of the model, one field per entry
  point, each free to raise: the PDF reader, the text loader (the page contents of the
  documents it loads), the text splitter with its chunk size and overlap, the vector
  store built from chunks and an embedding model (\<open>'db\<close> is the store), the retrieval
  of a retriever on a query, the language model called by name on a prompt, and the
  separator the documents chain puts between chunks.
\<close>

record embeddings =
  embedding_model :: string

record 'db retriever =
  vectorstore :: 'db
  search_kwargs :: "(string \<times> nat) list"

record 'db collaborators =
  PdfReader :: pdf_reader
  TextLoader_load :: "string \<Rightarrow> exn + string list"
  split_documents :: "nat \<Rightarrow> nat \<Rightarrow> string list \<Rightarrow> exn + string list"
  Chroma_from_documents :: "string list \<Rightarrow> embeddings \<Rightarrow> exn + 'db"
  get_relevant_documents :: "'db retriever \<Rightarrow> string \<Rightarrow> exn + string list"
  llm_invoke :: "string \<Rightarrow> string \<Rightarrow> exn + string"
  document_separator :: string

text \<open>
  \<^verbatim>\<open>create_vector_db(file_path)\<close>: load, split with \<^verbatim>\<open>chunk_size=1000\<close> and
  \<^verbatim>\<open>chunk_overlap=200\<close>, embed with the model \<^verbatim>\<open>mistral\<close>, build the store, and return
  \<^verbatim>\<open>vector_db.as_retriever(search_kwargs={"k": 3})\<close>.
\<close>

definition create_vector_db :: "'db collaborators \<Rightarrow> string \<Rightarrow> exn + 'db retriever" where
  "create_vector_db E file_path =
     (case TextLoader_load E file_path of
        Inl e \<Rightarrow> Inl e
      | Inr documents \<Rightarrow>
          (case split_documents E 1000 200 documents of
             Inl e \<Rightarrow> Inl e
           | Inr chunks \<Rightarrow>
               (case Chroma_from_documents E chunks \<lparr>embedding_model = ''mistral''\<rparr> of
                  Inl e \<Rightarrow> Inl e
                | Inr vector_db \<Rightarrow>
                    Inr \<lparr>vectorstore = vector_db, search_kwargs = [(''k'', 3)]\<rparr>)))"

text \<open>
  \<^verbatim>\<open>create_rag_chain(retriever)\<close> only assembles objects: the model \<^verbatim>\<open>mistral\<close>, the
  prompt built from \<^verbatim>\<open>system_prompt\<close> and the retriever it is given.
\<close>

record 'db rag_chain =
  chain_retriever :: "'db retriever"
  chain_llm :: string
  chain_prompt :: string

definition create_rag_chain :: "'db retriever \<Rightarrow> 'db rag_chain" where
  "create_rag_chain retriever =
     \<lparr>chain_retriever = retriever, chain_llm = ''mistral'', chain_prompt = system_prompt\<rparr>"

text \<open>
  \<^verbatim>\<open>rag_chain.invoke({"input": application_text})\<close>, as \<^verbatim>\<open>create_retrieval_chain\<close>
  runs it: retrieve with the input as query (the query is embedded there), fill the
  prompt, call the model; the result holds the input, the retrieved context and the
  answer. The prompt is a single system message, which the text model receives as
  \<^verbatim>\<open>System: \<close> followed by the filled template. A failure of any stage ends the
  call with that exception.
\<close>

record chain_output =
  output_input :: string
  output_context :: "string list"
  output_answer :: string

definition rag_chain_invoke :: "'db collaborators \<Rightarrow> 'db rag_chain \<Rightarrow> string \<Rightarrow> exn + chain_output" where
  "rag_chain_invoke E chain application_text =
     (case get_relevant_documents E (chain_retriever chain) application_text of
        Inl e \<Rightarrow> Inl e
      | Inr docs \<Rightarrow>
          (case compose_prompt (chain_prompt chain) (document_separator E) docs application_text of
             Inl e \<Rightarrow> Inl e
           | Inr prompt \<Rightarrow>
               (case llm_invoke E (chain_llm chain) (''System: '' @ prompt) of
                  Inl e \<Rightarrow> Inl e
                | Inr answer \<Rightarrow>
                    Inr \<lparr>output_input = application_text, output_context = docs,
                         output_answer = answer\<rparr>)))"

section \<open>main.py: the server\<close>

text \<open>
  The module-level dictionary \<^verbatim>\<open>app_state\<close> is the state of the server. The model adds
  a log of the inputs on which the chain was invoked, so that "the chain is not invoked"
  can be said of a handler.
\<close>

record 'db server =
  app_state :: "string \<rightharpoonup> 'db rag_chain"
  chain_calls :: "string list"

text \<open>\<^verbatim>\<open>os.path.join(a, b)\<close> for a relative \<open>b\<close>.\<close>

definition os_path_join :: "string \<Rightarrow> string \<Rightarrow> string" where
  "os_path_join a b = (if a = [] \<or> last a = CHR ''/'' then a @ b else a @ ''/'' @ b)"

text \<open>
  \<^verbatim>\<open>lifespan\<close> up to its \<^verbatim>\<open>yield\<close>, for the directory \<open>base_dir\<close> of the module: an
  exception of the construction leaves the hook, and the server does not start. After
  the \<^verbatim>\<open>yield\<close>, at shutdown, the dictionary is cleared.
\<close>

definition lifespan_startup :: "'db collaborators \<Rightarrow> string \<Rightarrow> 'db server \<Rightarrow> exn + 'db server" where
  "lifespan_startup E base_dir s =
     (let guidelines_path = os_path_join (os_path_join base_dir ''data'') ''guidelines.txt'' in
      case create_vector_db E guidelines_path of
        Inl e \<Rightarrow> Inl e
      | Inr retriever \<Rightarrow>
          Inr (s\<lparr>app_state := (app_state s)(''rag_chain'' \<mapsto> create_rag_chain retriever)\<rparr>))"

definition lifespan_shutdown :: "'db server \<Rightarrow> 'db server" where
  "lifespan_shutdown s = s\<lparr>app_state := Map.empty\<rparr>"

text \<open>
  What a handler gives back to the framework: an \<^verbatim>\<open>HTTPException\<close> with its status code
  and detail, a returned dictionary (sent as JSON with status 200), or an exception that
  leaves the handler uncaught.
\<close>

datatype response =
  HTTPException nat string
| JSON "(string \<times> string) list"
| Uncaught exn

record upload_file =
  filename :: string
  file_bytes :: bytes

definition read_root :: "'db server \<Rightarrow> response \<times> 'db server" where
  "read_root s = (JSON [(''message'', ''Welcome to the Underwriting Assistant API!'')], s)"

text \<open>
  \<^verbatim>\<open>analyze_application(file)\<close>. \<^verbatim>\<open>file.filename.endswith('.pdf')\<close> is \<^const>\<open>suffix\<close>,
  \<^verbatim>\<open>"Error:" in application_text\<close> is \<^const>\<open>sublist\<close>; \<^verbatim>\<open>app_state.get("rag_chain")\<close>
  is a lookup, and a stored chain is a truthy object.
\<close>

definition analyze_application ::
    "'db collaborators \<Rightarrow> 'db server \<Rightarrow> upload_file \<Rightarrow> response \<times> 'db server" where
  "analyze_application E s file =
     (if \<not> suffix ''.pdf'' (filename file) then
        (HTTPException 400 ''Invalid file type. Please upload a PDF.'', s)
      else
        (case load_application_text_from_bytes (PdfReader E) (file_bytes file) of
           Inl e \<Rightarrow> (Uncaught e, s)
         | Inr application_text \<Rightarrow>
             if sublist ''Error:'' application_text then
               (HTTPException 400 application_text, s)
             else
               (case app_state s ''rag_chain'' of
                  None \<Rightarrow> (HTTPException 500 ''RAG chain not initialized.'', s)
                | Some chain \<Rightarrow>
                    (let s' = s\<lparr>chain_calls := chain_calls s @ [application_text]\<rparr> in
                     case rag_chain_invoke E chain application_text of
                       Inl e \<Rightarrow> (HTTPException 500 ''An error occurred during analysis.'', s')
                     | Inr result \<Rightarrow> (JSON [(''analysis'', output_answer result)], s')))))"

text \<open>The two routes, and a server answering a sequence of requests one after the other.\<close>

datatype request = GetRoot | PostAnalyze upload_file

definition handle :: "'db collaborators \<Rightarrow> 'db server \<Rightarrow> request \<Rightarrow> response \<times> 'db server" where
  "handle E s req =
     (case req of
        GetRoot \<Rightarrow> read_root s
      | PostAnalyze file \<Rightarrow> analyze_application E s file)"

fun serve :: "'db collaborators \<Rightarrow> 'db server \<Rightarrow> request list \<Rightarrow> response list \<times> 'db server" where
  "serve E s [] = ([], s)"
| "serve E s (req # reqs) =
     (case handle E s req of
        (resp, s') \<Rightarrow> (case serve E s' reqs of (resps, s'') \<Rightarrow> (resp # resps, s'')))"

section \<open>Test doubles\<close>

text \<open>
  Concrete collaborators, servers and uploads on which the theorems below are run: a
  reader that returns the given pages, a loader and a retrieval that return one
  guideline, a splitter that keeps the documents, a store without content, and a model
  that answers \<^verbatim>\<open>No risks flagged.\<close>
\<close>

definition fixture :: "page list \<Rightarrow> unit collaborators" where
  "fixture pages =
     \<lparr>PdfReader = (\<lambda>pdf_bytes. Inr pages),
      TextLoader_load = (\<lambda>file_path. Inr [''Debt-to-income ratio must not exceed 43%.'']),
      split_documents = (\<lambda>chunk_size chunk_overlap documents. Inr documents),
      Chroma_from_documents = (\<lambda>chunks embedding. Inr ()),
      get_relevant_documents =
        (\<lambda>retriever query. Inr [''Debt-to-income ratio must not exceed 43%.'']),
      llm_invoke = (\<lambda>model prompt. Inr ''No risks flagged.''),
      document_separator = ''\<newline>\<newline>''\<rparr>"

text \<open>The same collaborators with a model server that refuses the connection.\<close>

definition model_down :: "page list \<Rightarrow> unit collaborators" where
  "model_down pages =
     (fixture pages)\<lparr>llm_invoke := (\<lambda>model prompt. Inl (Exception ''connection refused''))\<rparr>"

text \<open>The server before and after a successful start-up with these collaborators.\<close>

definition idle_server :: "unit server" where
  "idle_server = \<lparr>app_state = Map.empty, chain_calls = []\<rparr>"

definition ready_server :: "unit server" where
  "ready_server =
     \<lparr>app_state =
        [''rag_chain'' \<mapsto> create_rag_chain \<lparr>vectorstore = (), search_kwargs = [(''k'', 3)]\<rparr>],
      chain_calls = []\<rparr>"

definition loan_pdf :: upload_file where
  "loan_pdf = \<lparr>filename = ''loan.pdf'', file_bytes = [0x25, 0x50, 0x44, 0x46]\<rparr>"

text \<open>A one-page application whose text holds the characters \<^verbatim>\<open>Error:\<close>.\<close>

definition flagged_pages :: "page list" where
  "flagged_pages = [Inr ''Applicant note: Error: none reported'']"

section \<open>The three literal parts of the template\<close>

text \<open>
  The text of \<^const>\<open>system_prompt\<close> before \<^verbatim>\<open>{context}\<close>, between the two fields and
  after \<^verbatim>\<open>{input}\<close>; \<open>system_prompt_split\<close> below proves that they are these parts.
\<close>

definition prompt_head :: string where
  \<open>prompt_head =
     ''\<newline>'' @
     ''    You are an expert underwriting assistant. Your task is to analyze a\<newline>'' @
     ''    loan application based *only* on the provided 'Underwriting Guidelines'.\<newline>'' @
     ''    \<newline>'' @
     ''    Do not use any external knowledge.\<newline>'' @
     ''    \<newline>'' @
     ''    Analyze the following 'Loan Application' against the 'Underwriting Guidelines'.\<newline>'' @
     ''    \<newline>'' @
     ''    Guidelines:\<newline>'' @
     ''    ''\<close>

definition prompt_middle :: string where
  \<open>prompt_middle =
     ''\<newline>'' @
     ''    \<newline>'' @
     ''    Loan Application:\<newline>'' @
     ''    ''\<close>

definition prompt_tail :: string where
  \<open>prompt_tail =
     ''\<newline>'' @
     ''    \<newline>'' @
     ''    Please provide your analysis in the following format:\<newline>'' @
     ''    \<newline>'' @
     ''    **Summary:**\<newline>'' @
     ''    [Provide a brief summary of the loan application.]\<newline>'' @
     ''    \<newline>'' @
     ''    **Flagged Risks:**\<newline>'' @
     ''    [List all violations or risks found in the application based on the guidelines. \<newline>'' @
     ''    For each risk, state the guideline that was violated and why. \<newline>'' @
     ''    If no risks are found, state "No risks flagged." ]\<newline>'' @
     ''    ''\<close>

section \<open>Extraction of the application text\<close>

lemma extract_pages_texts:
  "extract_pages acc (map Inr ts) = Inr (acc @ concat ts)"
  by (induction ts arbitrary: acc) simp_all

lemma extract_pages_raises:
  "extract_pages acc (map Inr ts @ Inl e # rest) = Inl e"
  by (induction ts arbitrary: acc) simp_all

lemma load_application_text_raises:
  "load_application_text_try reader pdf_bytes = Inl e \<Longrightarrow>
   load_application_text_from_bytes reader pdf_bytes = Inr unreadable_message"
  by (simp add: load_application_text_from_bytes_def)

lemma load_application_text_empty:
  "reader pdf_bytes = Inr pages \<Longrightarrow> extract_pages [] pages = Inr [] \<Longrightarrow>
   load_application_text_from_bytes reader pdf_bytes = Inr unreadable_message"
  by (simp add: load_application_text_from_bytes_def load_application_text_try_def)

text \<open>
  C10. The extraction is total over its input: whatever the reader does on the bytes
  (return pages, raise at once, raise on some page), and for empty or malformed bytes
  as for any others, \<^verbatim>\<open>load_application_text_from_bytes\<close> returns a string and
  propagates no exception to its caller.
\<close>

theorem load_application_text_total:
  "\<exists>s. load_application_text_from_bytes reader pdf_bytes = Inr s"
  by (simp add: load_application_text_from_bytes_def split: sum.split)

theorem load_application_text_total_witness:
  "(\<exists>s. load_application_text_from_bytes (\<lambda>b. Inl (Exception ''EOF marker not found'')) [] = Inr s)
   \<and> load_application_text_from_bytes (\<lambda>b. Inl (Exception ''EOF marker not found'')) []
       = Inr ''Error: Could not read text from PDF.''"
  using load_application_text_total [of "\<lambda>b. Inl (Exception ''EOF marker not found'')" "[]"]
  by (simp add: load_application_text_from_bytes_def load_application_text_try_def
      unreadable_message_def)

text \<open>
  C7, as the code has it. When the pages of a PDF extract to the texts \<open>t1 .. tn\<close>,
  \<^verbatim>\<open>load_application_text_from_bytes\<close> returns \<open>t1 @ ... @ tn\<close>, in page order and with
  nothing between the pages, provided this concatenation is not empty; when it is empty
  (no page has text) the function returns the fixed message
  \<^verbatim>\<open>Error: Could not read text from PDF.\<close> instead.
\<close>

theorem extracted_text_is_page_concatenation:
  "reader pdf_bytes = Inr (map Inr ts) \<Longrightarrow>
   load_application_text_from_bytes reader pdf_bytes =
     Inr (if concat ts = [] then unreadable_message else concat ts)"
  by (simp add: load_application_text_from_bytes_def load_application_text_try_def
      extract_pages_texts)

theorem extracted_text_is_page_concatenation_witness:
  "load_application_text_from_bytes (\<lambda>pdf_bytes. Inr (map Inr [''Name: A. '', ''Income: 5''])) []
     = Inr ''Name: A. Income: 5''"
  using extracted_text_is_page_concatenation
    [of "\<lambda>pdf_bytes. Inr (map Inr [''Name: A. '', ''Income: 5''])" "[]"
        "[''Name: A. '', ''Income: 5'']"]
  by simp

text \<open>
  C7 as stated fails on a PDF of two pages without text (two scanned images): the
  concatenation is the empty string, the function returns the message.
\<close>

theorem pages_without_text_counterexample:
  "load_application_text_from_bytes (\<lambda>pdf_bytes. Inr (map Inr ['''', ''''])) []
     = Inr ''Error: Could not read text from PDF.''
   \<and> load_application_text_from_bytes (\<lambda>pdf_bytes. Inr (map Inr ['''', ''''])) []
     \<noteq> Inr (concat ['''', ''''])"
  by (simp add: load_application_text_from_bytes_def load_application_text_try_def
      unreadable_message_def)

section \<open>Construction of the retriever\<close>

lemma startup_fixture:
  "lifespan_startup (fixture pages) ''/srv/backend'' idle_server = Inr ready_server"
  by (simp add: lifespan_startup_def create_vector_db_def fixture_def idle_server_def
      ready_server_def)

lemma startup_cutoff:
  "lifespan_startup E base_dir s = Inr s' \<Longrightarrow>
   \<exists>chain. app_state s' ''rag_chain'' = Some chain
     \<and> search_kwargs (chain_retriever chain) = [(''k'', 3)]"
  by (auto simp: lifespan_startup_def create_vector_db_def create_rag_chain_def Let_def
      split: sum.splits)

text \<open>
  C2, as the code has it. \<^verbatim>\<open>create_vector_db\<close> takes the path of the guidelines and
  nothing else; the cutoff is the constant 3 written in its body: every retriever it
  returns, for every path and whatever the libraries do, searches with \<^verbatim>\<open>{"k": 3}\<close>.
\<close>

theorem create_vector_db_fixes_k:
  "create_vector_db E file_path = Inr r \<Longrightarrow> search_kwargs r = [(''k'', 3)]"
  by (auto simp: create_vector_db_def split: sum.splits)

theorem create_vector_db_fixes_k_witness:
  "create_vector_db (fixture []) ''data/guidelines.txt''
     = Inr \<lparr>vectorstore = (), search_kwargs = [(''k'', 3)]\<rparr>
   \<and> search_kwargs \<lparr>vectorstore = (), search_kwargs = [(''k'', 3)]\<rparr> = [(''k'', 3)]"
proof -
  have h: "create_vector_db (fixture []) ''data/guidelines.txt''
      = Inr \<lparr>vectorstore = (), search_kwargs = [(''k'', 3)]\<rparr>"
    by (simp add: create_vector_db_def fixture_def)
  show ?thesis using h create_vector_db_fixes_k [OF h] by simp
qed

text \<open>
  C2 as stated fails: no call of \<^verbatim>\<open>create_vector_db\<close> returns a retriever whose cutoff
  is not 3, so a caller cannot supply another one.
\<close>

theorem caller_supplied_k_counterexample:
  "\<not> (\<exists>E file_path r. create_vector_db E file_path = Inr r
         \<and> search_kwargs r \<noteq> [(''k'', 3)])"
  by (auto simp: create_vector_db_def split: sum.splits)

section \<open>Filling the template\<close>

lemma system_prompt_split:
  "system_prompt = prompt_head @ ''{context}'' @ prompt_middle @ ''{input}'' @ prompt_tail"
  by (simp add: system_prompt_def prompt_head_def prompt_middle_def prompt_tail_def)

lemma str_format_literal:
  "CHR ''{'' \<notin> set lit \<Longrightarrow> CHR ''}'' \<notin> set lit \<Longrightarrow>
   str_format kwargs None (lit @ rest) =
     (case str_format kwargs None rest of Inl e \<Rightarrow> Inl e | Inr out \<Rightarrow> Inr (lit @ out))"
  by (induction lit) (auto split: sum.splits)

lemma str_format_field:
  "CHR ''}'' \<notin> set nm \<Longrightarrow>
   str_format kwargs (Some acc) (nm @ CHR ''}'' # rest) =
     (case kwargs (acc @ nm) of
        None \<Rightarrow> Inl (Exception (acc @ nm))
      | Some v \<Rightarrow>
          (case str_format kwargs None rest of Inl e \<Rightarrow> Inl e | Inr out \<Rightarrow> Inr (v @ out)))"
  by (induction nm arbitrary: acc) (auto split: sum.splits option.splits)

lemma prompt_head_plain: "CHR ''{'' \<notin> set prompt_head" "CHR ''}'' \<notin> set prompt_head"
  by (simp_all add: prompt_head_def)

lemma prompt_middle_plain: "CHR ''{'' \<notin> set prompt_middle" "CHR ''}'' \<notin> set prompt_middle"
  by (simp_all add: prompt_middle_def)

lemma prompt_tail_plain: "CHR ''{'' \<notin> set prompt_tail" "CHR ''}'' \<notin> set prompt_tail"
  by (simp_all add: prompt_tail_def)

lemma str_format_tail: "str_format kwargs None prompt_tail = Inr prompt_tail"
  using str_format_literal [OF prompt_tail_plain, of kwargs "[]"] by simp

lemma str_format_input_part:
  "kwargs ''input'' = Some v \<Longrightarrow>
   str_format kwargs None (''{input}'' @ prompt_tail) = Inr (v @ prompt_tail)"
  using str_format_field [of "''input''" kwargs "[]" prompt_tail]
  by (simp add: str_format_tail)

lemma str_format_context_part:
  "kwargs ''context'' = Some c \<Longrightarrow> kwargs ''input'' = Some v \<Longrightarrow>
   str_format kwargs None (''{context}'' @ prompt_middle @ ''{input}'' @ prompt_tail) =
     Inr (c @ prompt_middle @ v @ prompt_tail)"
  using str_format_field [of "''context''" kwargs "[]" "prompt_middle @ ''{input}'' @ prompt_tail"]
    str_format_literal [OF prompt_middle_plain, of kwargs "''{input}'' @ prompt_tail"]
    str_format_input_part [of kwargs v]
  by simp

lemma compose_system_prompt:
  "compose_prompt system_prompt sep context_chunks application_text =
     Inr (prompt_head @ join sep context_chunks @ prompt_middle @ application_text @ prompt_tail)"
  unfolding compose_prompt_def system_prompt_split
  using str_format_literal [OF prompt_head_plain,
      of "[''context'' \<mapsto> join sep context_chunks, ''input'' \<mapsto> application_text]"
         "''{context}'' @ prompt_middle @ ''{input}'' @ prompt_tail"]
    str_format_context_part
      [of "[''context'' \<mapsto> join sep context_chunks, ''input'' \<mapsto> application_text]"
          "join sep context_chunks" application_text]
  by simp

lemma summary_in_tail: "sublist ''Summary'' prompt_tail"
  unfolding prompt_tail_def by code_simp

lemma flagged_risks_in_tail: "sublist ''Flagged Risks'' prompt_tail"
  unfolding prompt_tail_def by code_simp

text \<open>
  C3. For every sequence of context chunks and every application text (and every
  separator of the chunks), filling the template of \<^verbatim>\<open>create_rag_chain\<close> succeeds, and
  the composed prompt contains the two section labels \<^verbatim>\<open>Summary\<close> and
  \<^verbatim>\<open>Flagged Risks\<close> of the template and the whole application text, unmodified, as a
  substring.
\<close>

theorem composed_prompt_contents:
  "\<exists>prompt.
     compose_prompt (chain_prompt (create_rag_chain retriever)) sep context_chunks
       application_text = Inr prompt
     \<and> sublist ''Summary'' prompt \<and> sublist ''Flagged Risks'' prompt
     \<and> sublist application_text prompt"
proof -
  let ?p = "prompt_head @ join sep context_chunks @ prompt_middle @ application_text @ prompt_tail"
  have "sublist prompt_tail ?p"
    by (metis sublist_appendI append.assoc append_Nil2)
  then have "sublist ''Summary'' ?p" "sublist ''Flagged Risks'' ?p"
    using summary_in_tail flagged_risks_in_tail sublist_order.order_trans by blast+
  moreover have "sublist application_text ?p"
    by (metis sublist_appendI append.assoc)
  ultimately show ?thesis
    by (simp add: create_rag_chain_def compose_system_prompt)
qed

theorem composed_prompt_contents_witness:
  "\<exists>prompt.
     compose_prompt
       (chain_prompt (create_rag_chain \<lparr>vectorstore = (), search_kwargs = [(''k'', 3)]\<rparr>))
       ''\<newline>\<newline>'' [''Rule 1'', ''Rule 2''] ''Income: 5'' = Inr prompt
     \<and> sublist ''Summary'' prompt \<and> sublist ''Flagged Risks'' prompt
     \<and> sublist ''Income: 5'' prompt"
  using composed_prompt_contents
    [of "\<lparr>vectorstore = (), search_kwargs = [(''k'', 3)]\<rparr>" "''\<newline>\<newline>''"
        "[''Rule 1'', ''Rule 2'']" "''Income: 5''"]
  by simp

section \<open>The handler of /analyze\<close>

lemma unreadable_message_marker: "sublist ''Error:'' unreadable_message"
  unfolding unreadable_message_def by code_simp

text \<open>
  The half of C1 that the code has: a PDF whose reader or pages raise, or whose pages
  hold no text, is answered with 400 and the fixed message.
\<close>

lemma analyze_unreadable:
  assumes "suffix ''.pdf'' (filename file)"
    and "load_application_text_try (PdfReader E) (file_bytes file) = Inl e
         \<or> (\<exists>pages. PdfReader E (file_bytes file) = Inr pages
               \<and> extract_pages [] pages = Inr [])"
  shows "analyze_application E s file = (HTTPException 400 unreadable_message, s)"
proof -
  from assms(2)
  have "load_application_text_from_bytes (PdfReader E) (file_bytes file) = Inr unreadable_message"
    by (auto simp: load_application_text_from_bytes_def load_application_text_try_def)
  with assms(1) unreadable_message_marker show ?thesis
    by (simp add: analyze_application_def)
qed

lemma marker_in_note: "sublist ''Error:'' ''Applicant note: Error: none reported''"
  by code_simp

text \<open>
  C1 does not hold of the code. The upload \<^verbatim>\<open>loan.pdf\<close> has one page whose text
  is \<^verbatim>\<open>Applicant note: Error: none reported\<close>: the extraction succeeds with this
  non-empty text and no exception, and the request is answered with 400 all the same
  (with the whole text as detail), whether or not the chain is initialised, because the
  handler looks for the characters \<^verbatim>\<open>Error:\<close> anywhere in the text.
\<close>

theorem analyze_rejects_text_containing_marker:
  "load_application_text_try (PdfReader (fixture flagged_pages)) (file_bytes loan_pdf)
     = Inr ''Applicant note: Error: none reported''
   \<and> analyze_application (fixture flagged_pages) s loan_pdf
     = (HTTPException 400 ''Applicant note: Error: none reported'', s)"
  using marker_in_note
  by (simp add: analyze_application_def load_application_text_from_bytes_def
      load_application_text_try_def fixture_def flagged_pages_def loan_pdf_def
      suffix_to_prefix)

lemma loan_pdf_suffix: "suffix ''.pdf'' (filename loan_pdf)"
  by (simp add: loan_pdf_def suffix_to_prefix)

lemma income_text_unmarked: "\<not> sublist ''Error:'' ''Income: 5''"
  by code_simp

lemma load_fixture_income:
  "load_application_text_from_bytes (PdfReader (fixture [Inr ''Income: 5''])) pdf_bytes
     = Inr ''Income: 5''"
  by (simp add: fixture_def load_application_text_from_bytes_def load_application_text_try_def)

lemma load_model_down_income:
  "load_application_text_from_bytes (PdfReader (model_down [Inr ''Income: 5''])) pdf_bytes
     = Inr ''Income: 5''"
  by (simp add: model_down_def fixture_def load_application_text_from_bytes_def
      load_application_text_try_def)

lemma ready_server_chain:
  "app_state ready_server ''rag_chain''
     = Some (create_rag_chain \<lparr>vectorstore = (), search_kwargs = [(''k'', 3)]\<rparr>)"
  by (simp add: ready_server_def)

lemma invoke_fixture:
  "rag_chain_invoke (fixture pages) (create_rag_chain r) text =
     Inr \<lparr>output_input = text,
          output_context = [''Debt-to-income ratio must not exceed 43%.''],
          output_answer = ''No risks flagged.''\<rparr>"
  by (simp add: rag_chain_invoke_def create_rag_chain_def compose_system_prompt fixture_def)

lemma invoke_model_down:
  "rag_chain_invoke (model_down pages) (create_rag_chain r) text
     = Inl (Exception ''connection refused'')"
  by (simp add: rag_chain_invoke_def create_rag_chain_def compose_system_prompt
      model_down_def fixture_def)

text \<open>
  The stages of the chain: an exception of the retrieval (which embeds the query) or of
  the generation is the exception of the call.
\<close>

lemma invoke_retrieval_raises:
  "get_relevant_documents E (chain_retriever chain) text = Inl e \<Longrightarrow>
   rag_chain_invoke E chain text = Inl e"
  by (simp add: rag_chain_invoke_def)

lemma invoke_generation_raises:
  "get_relevant_documents E (chain_retriever chain) text = Inr docs \<Longrightarrow>
   compose_prompt (chain_prompt chain) (document_separator E) docs text = Inr prompt \<Longrightarrow>
   llm_invoke E (chain_llm chain) (''System: '' @ prompt) = Inl e \<Longrightarrow>
   rag_chain_invoke E chain text = Inl e"
  by (simp add: rag_chain_invoke_def)

lemma analyze_never_uncaught: "fst (analyze_application E s file) \<noteq> Uncaught x"
  by (simp add: analyze_application_def load_application_text_from_bytes_def Let_def
      split: sum.split option.split)

text \<open>
  C5. When a request reaches the analysis (a \<^verbatim>\<open>.pdf\<close> name, a text that passes the
  check of the handler, a stored chain) and the chain raises an exception \<open>e\<close>, be it
  from the embedding of the query, the retrieval or the generation, the response is the
  status 500 with the fixed detail \<^verbatim>\<open>An error occurred during analysis.\<close>, the same
  for every \<open>e\<close>. And no request at all is answered by an exception that leaves the
  handler.
\<close>

theorem analysis_failure_generic_500:
  "(suffix ''.pdf'' (filename file)
      \<and> load_application_text_from_bytes (PdfReader E) (file_bytes file) = Inr text
      \<and> \<not> sublist ''Error:'' text
      \<and> app_state s ''rag_chain'' = Some chain
      \<and> rag_chain_invoke E chain text = Inl e
    \<longrightarrow> fst (analyze_application E s file)
          = HTTPException 500 ''An error occurred during analysis.'')
   \<and> (\<forall>x. fst (analyze_application E s file) \<noteq> Uncaught x)"
  using analyze_never_uncaught [of E s "file"]
  by (simp add: analyze_application_def Let_def)

theorem analysis_failure_generic_500_witness:
  "rag_chain_invoke (model_down [Inr ''Income: 5''])
       (create_rag_chain \<lparr>vectorstore = (), search_kwargs = [(''k'', 3)]\<rparr>) ''Income: 5''
     = Inl (Exception ''connection refused'')
   \<and> fst (analyze_application (model_down [Inr ''Income: 5'']) ready_server loan_pdf)
     = HTTPException 500 ''An error occurred during analysis.''"
  using analysis_failure_generic_500
    [of loan_pdf "model_down [Inr ''Income: 5'']" "''Income: 5''" ready_server
        "create_rag_chain \<lparr>vectorstore = (), search_kwargs = [(''k'', 3)]\<rparr>"
        "Exception ''connection refused''"]
    loan_pdf_suffix load_model_down_income income_text_unmarked ready_server_chain
    invoke_model_down [of "[Inr ''Income: 5'']" "\<lparr>vectorstore = (), search_kwargs = [(''k'', 3)]\<rparr>" "''Income: 5''"]
  by simp

text \<open>
  The part of the check of the chain that the code has: a request with a \<^verbatim>\<open>.pdf\<close> name
  whose extracted text does not hold the characters \<^verbatim>\<open>Error:\<close>, arriving while
  \<^verbatim>\<open>app_state\<close> holds no chain, is answered with the status 500 and the detail
  \<^verbatim>\<open>RAG chain not initialized.\<close>, and the chain is not invoked: the log of its calls, as
  all of the state, is unchanged.
\<close>

lemma unmarked_text_before_startup:
  assumes "suffix ''.pdf'' (filename file)"
    and "load_application_text_from_bytes (PdfReader E) (file_bytes file) = Inr text"
    and "\<not> sublist ''Error:'' text"
    and "app_state s ''rag_chain'' = None"
  shows "analyze_application E s file = (HTTPException 500 ''RAG chain not initialized.'', s)
    \<and> chain_calls (snd (analyze_application E s file)) = chain_calls s"
  using assms by (simp add: analyze_application_def)

lemma unmarked_text_before_startup_example:
  "app_state idle_server ''rag_chain'' = None
   \<and> analyze_application (fixture [Inr ''Income: 5'']) idle_server loan_pdf
     = (HTTPException 500 ''RAG chain not initialized.'', idle_server)
   \<and> chain_calls (snd (analyze_application (fixture [Inr ''Income: 5'']) idle_server loan_pdf))
     = []"
proof -
  have h: "app_state idle_server ''rag_chain'' = None"
    by (simp add: idle_server_def)
  show ?thesis
    using h unmarked_text_before_startup
        [OF loan_pdf_suffix load_fixture_income income_text_unmarked h]
    by (simp add: idle_server_def)
qed

text \<open>
  C6 does not hold of the code. The upload \<^verbatim>\<open>loan.pdf\<close> has one page whose text is
  \<^verbatim>\<open>Applicant note: Error: none reported\<close>, and it arrives before start-up has stored
  the chain (\<^verbatim>\<open>app_state\<close> is empty). The name ends in \<^verbatim>\<open>.pdf\<close> and the text is
  readable: the extraction succeeds with this non-empty text and no exception. The
  response is the status 400 with the text as detail, not 500: the handler looks for the
  characters \<^verbatim>\<open>Error:\<close> in the text before it looks for the chain. The chain is not
  invoked, the state is unchanged.
\<close>

theorem marker_text_before_startup_is_400:
  "suffix ''.pdf'' (filename loan_pdf)
   \<and> app_state idle_server ''rag_chain'' = None
   \<and> load_application_text_try (PdfReader (fixture flagged_pages)) (file_bytes loan_pdf)
     = Inr ''Applicant note: Error: none reported''
   \<and> analyze_application (fixture flagged_pages) idle_server loan_pdf
     = (HTTPException 400 ''Applicant note: Error: none reported'', idle_server)"
  using marker_in_note
  by (simp add: analyze_application_def load_application_text_from_bytes_def
      load_application_text_try_def fixture_def flagged_pages_def loan_pdf_def
      idle_server_def suffix_to_prefix)

section \<open>The state of the server across requests\<close>

lemma handle_app_state: "app_state (snd (handle E s req)) = app_state s"
  by (simp add: handle_def read_root_def analyze_application_def Let_def
      split: request.split sum.split option.split)

lemma serve_app_state: "app_state (snd (serve E s reqs)) = app_state s"
proof (induction reqs arbitrary: s)
  case Nil
  show ?case by simp
next
  case (Cons req reqs)
  obtain resp s' where h: "handle E s req = (resp, s')"
    by (cases "handle E s req")
  then have "app_state s' = app_state s"
    using handle_app_state [of E s req] by simp
  with Cons [of s'] h show ?case
    by (cases "serve E s' reqs") simp
qed

lemma analyze_ready_fixture:
  "analyze_application (fixture [Inr ''Income: 5'']) ready_server loan_pdf =
     (JSON [(''analysis'', ''No risks flagged.'')],
      ready_server\<lparr>chain_calls := [''Income: 5'']\<rparr>)"
  using loan_pdf_suffix income_text_unmarked
  by (simp add: analyze_application_def load_fixture_income ready_server_chain invoke_fixture)
     (simp add: ready_server_def)

text \<open>
  C9. No handler writes to \<^verbatim>\<open>app_state\<close>: for every state of the server, in
  particular the one start-up leaves, every sequence of \<^verbatim>\<open>/\<close> and \<^verbatim>\<open>/analyze\<close>
  requests and every number \<open>n\<close> of them answered so far, the dictionary, hence the
  stored chain with its retriever and the index in it, is what it was before the first
  request.
\<close>

theorem requests_preserve_app_state:
  "\<forall>n. app_state (snd (serve E s (take n reqs))) = app_state s"
  by (simp add: serve_app_state)

theorem requests_preserve_app_state_witness:
  "serve (fixture [Inr ''Income: 5'']) ready_server [GetRoot, PostAnalyze loan_pdf] =
     ([JSON [(''message'', ''Welcome to the Underwriting Assistant API!'')],
       JSON [(''analysis'', ''No risks flagged.'')]],
      ready_server\<lparr>chain_calls := [''Income: 5'']\<rparr>)
   \<and> app_state (snd (serve (fixture [Inr ''Income: 5'']) ready_server
         [GetRoot, PostAnalyze loan_pdf])) = app_state ready_server"
  using requests_preserve_app_state
    [of "fixture [Inr ''Income: 5'']" ready_server "[GetRoot, PostAnalyze loan_pdf]"]
  by (simp add: handle_def read_root_def analyze_ready_fixture)

end
